theory Spec2Isabelle
  imports Main
begin

section \<open>The Moltgram TypeScript client: request execution core\<close>

text \<open>
  A shallow embedding of \<^verbatim>\<open>client/HttpClient.ts\<close>, \<^verbatim>\<open>client/MoltgramClient.ts\<close>,
  \<^verbatim>\<open>utils/errors.ts\<close> and \<^verbatim>\<open>validateApiKey\<close> of \<^verbatim>\<open>utils/validators.ts\<close>.
  JavaScript numbers are modelled as unbounded integers (\<open>NaN\<close> is written out where the
  code can produce it), strings as \<open>string\<close>, \<open>undefined\<close> as \<open>None\<close>, a thrown
  exception as the \<open>Inl\<close> side of a sum, and the mutable field \<^verbatim>\<open>rateLimitInfo\<close> by
  passing the client object through every call that may assign it.
\<close>

subsection \<open>JavaScript primitives the code relies on\<close>

text \<open>\<^verbatim>\<open>String(n)\<close> and template interpolation of an integer: decimal digits, a leading
  minus sign for negative numbers.\<close>

definition digit :: "nat \<Rightarrow> char" where
  "digit d = ''0123456789'' ! d"

function show_nat :: "nat \<Rightarrow> string" where
  "show_nat n = (if n < 10 then [digit n] else show_nat (n div 10) @ [digit (n mod 10)])"
  by pat_completeness auto
termination
  by (relation "measure id") auto

definition show_int :: "int \<Rightarrow> string" where
  "show_int i = (if i < 0 then CHR ''-'' # show_nat (nat (- i)) else show_nat (nat i))"

text \<open>\<^verbatim>\<open>s.startsWith(p)\<close>.\<close>

definition startsWith :: "string \<Rightarrow> string \<Rightarrow> bool" where
  "startsWith s p = (take (length p) s = p)"

text \<open>\<^verbatim>\<open>s.includes(p)\<close>: \<open>p\<close> occurs in \<open>s\<close> at some position.\<close>

fun str_includes :: "string \<Rightarrow> string \<Rightarrow> bool" where
  "str_includes [] p = (p = [])"
| "str_includes (c # s) p = (startsWith (c # s) p \<or> str_includes s p)"

text \<open>A JavaScript number that may be \<open>NaN\<close>.\<close>

datatype number = NaN | Num int

text \<open>\<^verbatim>\<open>parseInt(s, 10)\<close>: leading white space is skipped, an optional sign is read,
  then the longest run of decimal digits; with no digit the result is \<open>NaN\<close>.\<close>

definition isWhiteSpace :: "char \<Rightarrow> bool" where
  "isWhiteSpace c = (c \<in> set [CHR '' '', CHR 0x09, CHR 0x0A, CHR 0x0B, CHR 0x0C, CHR 0x0D])"

definition isDigit :: "char \<Rightarrow> bool" where
  "isDigit c = (c \<in> set ''0123456789'')"

definition digit_val :: "char \<Rightarrow> int" where
  "digit_val c = int (of_char c) - 48"

definition digits_val :: "string \<Rightarrow> number" where
  "digits_val ds = (if ds = [] then NaN else Num (foldl (\<lambda>a c. 10 * a + digit_val c) 0 ds))"

definition negate :: "number \<Rightarrow> number" where
  "negate x = (case x of NaN \<Rightarrow> NaN | Num n \<Rightarrow> Num (- n))"

definition parseInt :: "string \<Rightarrow> number" where
  "parseInt s =
     (case dropWhile isWhiteSpace s of
        [] \<Rightarrow> NaN
      | c # cs \<Rightarrow>
          if c = CHR ''-'' then negate (digits_val (takeWhile isDigit cs))
          else if c = CHR ''+'' then digits_val (takeWhile isDigit cs)
          else digits_val (takeWhile isDigit (c # cs)))"

text \<open>\<^verbatim>\<open>new Date(x * 1000)\<close>, as milliseconds since the epoch; \<open>NaN\<close> is an invalid date.\<close>

definition times1000 :: "number \<Rightarrow> number" where
  "times1000 x = (case x of NaN \<Rightarrow> NaN | Num n \<Rightarrow> Num (n * 1000))"

subsection \<open>Error classes (\<^verbatim>\<open>utils/errors.ts\<close>)\<close>

text \<open>
  The class of an error object, which is what \<^verbatim>\<open>instanceof\<close> tests. Every class below
  extends \<^verbatim>\<open>MoltgramError\<close>; \<^verbatim>\<open>RateLimitError\<close> adds the fields \<^verbatim>\<open>retryAfter\<close>
  (seconds) and \<^verbatim>\<open>resetAt\<close> (a date, in milliseconds since the epoch).
\<close>

datatype error_class =
    MoltgramErrorC
  | AuthenticationErrorC
  | ForbiddenErrorC
  | NotFoundErrorC
  | ValidationErrorC
  | RateLimitErrorC int int
  | ConflictErrorC
  | NetworkErrorC
  | TimeoutErrorC

record MoltgramError =
  kind :: error_class
  message :: string
  statusCode :: int
  code :: "string option"
  hint :: "string option"

text \<open>\<^verbatim>\<open>a || b\<close> on an optional string: \<open>undefined\<close> and the empty string are falsy.\<close>

definition or_else :: "string option \<Rightarrow> string \<Rightarrow> string" where
  "or_else a b = (case a of None \<Rightarrow> b | Some s \<Rightarrow> if s = [] then b else s)"

definition new_MoltgramError :: "string \<Rightarrow> int \<Rightarrow> string option \<Rightarrow> string option \<Rightarrow> MoltgramError" where
  "new_MoltgramError msg st cd hn =
     \<lparr>kind = MoltgramErrorC, message = msg, statusCode = st, code = cd, hint = hn\<rparr>"

definition AuthenticationError :: "string \<Rightarrow> string option \<Rightarrow> MoltgramError" where
  "AuthenticationError msg hn =
     \<lparr>kind = AuthenticationErrorC, message = msg, statusCode = 401,
      code = Some ''UNAUTHORIZED'', hint = Some (or_else hn ''Check your API key'')\<rparr>"

definition ForbiddenError :: "string \<Rightarrow> string option \<Rightarrow> MoltgramError" where
  "ForbiddenError msg hn =
     \<lparr>kind = ForbiddenErrorC, message = msg, statusCode = 403,
      code = Some ''FORBIDDEN'', hint = hn\<rparr>"

definition NotFoundError :: "string \<Rightarrow> string option \<Rightarrow> MoltgramError" where
  "NotFoundError msg hn =
     \<lparr>kind = NotFoundErrorC, message = msg, statusCode = 404,
      code = Some ''NOT_FOUND'', hint = hn\<rparr>"

definition ValidationError :: "string \<Rightarrow> string option \<Rightarrow> string option \<Rightarrow> MoltgramError" where
  "ValidationError msg cd hn =
     \<lparr>kind = ValidationErrorC, message = msg, statusCode = 400,
      code = Some (or_else cd ''VALIDATION_ERROR''), hint = hn\<rparr>"

text \<open>The constructor reads the clock: \<^verbatim>\<open>new Date(Date.now() + retryAfter * 1000)\<close>.\<close>

definition RateLimitError :: "int \<Rightarrow> string \<Rightarrow> int \<Rightarrow> string option \<Rightarrow> MoltgramError" where
  "RateLimitError now msg ra hn =
     \<lparr>kind = RateLimitErrorC ra (now + ra * 1000), message = msg, statusCode = 429,
      code = Some ''RATE_LIMITED'',
      hint = Some (or_else hn (''Try again in '' @ show_int ra @ '' seconds''))\<rparr>"

definition ConflictError :: "string \<Rightarrow> string option \<Rightarrow> MoltgramError" where
  "ConflictError msg hn =
     \<lparr>kind = ConflictErrorC, message = msg, statusCode = 409,
      code = Some ''CONFLICT'', hint = hn\<rparr>"

definition NetworkError :: "string \<Rightarrow> MoltgramError" where
  "NetworkError msg =
     \<lparr>kind = NetworkErrorC, message = msg, statusCode = 0,
      code = Some ''NETWORK_ERROR'', hint = Some ''Check your internet connection''\<rparr>"

text \<open>The hint depends on \<^verbatim>\<open>timeoutMs\<close> being truthy: an absent and a zero
  \<^verbatim>\<open>timeoutMs\<close> both give the stock hint.\<close>

definition TimeoutError :: "string \<Rightarrow> int option \<Rightarrow> MoltgramError" where
  "TimeoutError msg timeoutMs =
     \<lparr>kind = TimeoutErrorC, message = msg, statusCode = 0, code = Some ''TIMEOUT'',
      hint = Some (case timeoutMs of
                     None \<Rightarrow> ''Request took too long''
                   | Some t \<Rightarrow> if t = 0 then ''Request took too long''
                              else ''Request exceeded '' @ show_int t @ ''ms'')\<rparr>"

text \<open>\<^verbatim>\<open>ConfigurationError\<close> extends \<^verbatim>\<open>Error\<close>, not \<^verbatim>\<open>MoltgramError\<close>.\<close>

datatype ConfigurationError = ConfigurationError string

text \<open>
  What a \<^verbatim>\<open>catch\<close> clause of the client can receive: an error of the SDK's own hierarchy,
  a \<^verbatim>\<open>TypeError\<close> (with its message), the \<^verbatim>\<open>DOMException\<close> named \<^verbatim>\<open>AbortError\<close> with
  which \<^verbatim>\<open>fetch\<close> rejects once its signal is aborted, the \<^verbatim>\<open>SyntaxError\<close> of
  \<^verbatim>\<open>response.json()\<close> on a malformed body, any other exception, and the value
  \<^verbatim>\<open>undefined\<close> (the initial value of \<^verbatim>\<open>lastError\<close>).
\<close>

datatype thrown =
    Moltgram MoltgramError
  | TypeError string
  | AbortError
  | SyntaxError
  | OtherError string
  | Undefined

subsection \<open>The platform: \<^verbatim>\<open>Response\<close>, \<^verbatim>\<open>URL\<close>, \<^verbatim>\<open>fetch\<close>, the clock\<close>

text \<open>
  The body of an error response as the code reads it (\<^verbatim>\<open>ApiErrorResponse\<close> of
  \<^verbatim>\<open>types/index.ts\<close>); every field may be missing from the JSON object.
\<close>

record ApiErrorResponse =
  error :: "string option"
  error_code :: "string option"
  error_hint :: "string option"
  error_retryAfter :: "int option"

text \<open>
  A response: \<^verbatim>\<open>headers\<close> is the function \<^verbatim>\<open>response.headers.get\<close> (\<open>None\<close> for
  \<^verbatim>\<open>null\<close>); \<^verbatim>\<open>json\<close> is what \<^verbatim>\<open>response.json()\<close> yields, \<open>None\<close> when it rejects
  (malformed body), otherwise the parsed object seen through the two types the code
  gives it: \<^verbatim>\<open>ApiErrorResponse\<close> on the error path and the caller's \<^verbatim>\<open>T\<close> on success.
\<close>

record 'a Response =
  status :: int
  statusText :: string
  headers :: "string \<Rightarrow> string option"
  json :: "(ApiErrorResponse \<times> 'a) option"

text \<open>\<^verbatim>\<open>response.ok\<close>: the status is in the range 200 to 299.\<close>

definition ok :: "'a Response \<Rightarrow> bool" where
  "ok r = (200 \<le> status r \<and> status r \<le> 299)"

text \<open>
  One call of \<^verbatim>\<open>fetch\<close> under the abort timer of \<^verbatim>\<open>request\<close>: it resolves with a
  response, it rejects with a \<^verbatim>\<open>TypeError\<close> (what \<^verbatim>\<open>fetch\<close> does when the network
  fails; the argument is the message), it rejects with some other exception, or the
  timer fires first: \<^verbatim>\<open>controller.abort()\<close> runs and \<^verbatim>\<open>fetch\<close> rejects with the
  \<^verbatim>\<open>AbortError\<close> of its signal.
\<close>

datatype 'a fetch_result =
    Resolves "'a Response"
  | Rejects_TypeError string
  | Rejects_Other string
  | TimesOut

text \<open>
  A \<^verbatim>\<open>URL\<close> object: the serialisation up to and including the path, the query
  (\<open>None\<close> for a null query), the list behind \<^verbatim>\<open>searchParams\<close> and the fragment.
\<close>

record URL =
  upto_path :: string
  search :: "string option"
  searchParams :: "(string \<times> string) list"
  fragment :: "string option"

text \<open>
  The platform a request runs on: \<^verbatim>\<open>new URL(path, base)\<close> (\<open>None\<close> when it throws its
  \<^verbatim>\<open>TypeError\<close> for an invalid URL), the outcome of the \<open>i\<close>-th call of
  \<^verbatim>\<open>fetch(url, ...)\<close> made by a request (method, headers and body are fixed during a
  request and are left to the platform), and the value of \<^verbatim>\<open>Date.now()\<close> during the
  \<open>i\<close>-th attempt.
\<close>

record 'a platform =
  new_URL :: "string \<Rightarrow> string \<Rightarrow> URL option"
  fetch :: "string \<Rightarrow> nat \<Rightarrow> 'a fetch_result"
  Date_now :: "nat \<Rightarrow> int"

subsection \<open>\<^verbatim>\<open>HttpClient\<close>\<close>

record RateLimitInfo =
  limit :: number
  remaining :: number
  resetAt :: number

record HttpClientConfig =
  cfg_apiKey :: "string option"
  cfg_baseUrl :: "string option"
  cfg_timeout :: "int option"
  cfg_retries :: "int option"
  cfg_retryDelay :: "int option"
  cfg_headers :: "(string \<times> string) list option"

record HttpClient =
  apiKey :: "string option"
  baseUrl :: string
  timeout :: int
  retries :: int
  retryDelay :: int
  customHeaders :: "(string \<times> string) list"
  rateLimitInfo :: "RateLimitInfo option"

definition DEFAULT_BASE_URL :: string where
  "DEFAULT_BASE_URL = ''https://www.moltgram.com/api/v1''"

definition DEFAULT_TIMEOUT :: int where
  "DEFAULT_TIMEOUT = 30000"

definition DEFAULT_RETRIES :: int where
  "DEFAULT_RETRIES = 3"

definition DEFAULT_RETRY_DELAY :: int where
  "DEFAULT_RETRY_DELAY = 1000"

text \<open>\<^verbatim>\<open>MAX_RETRY_DELAY\<close> of \<^verbatim>\<open>utils/constants.ts\<close>; \<^verbatim>\<open>HttpClient.ts\<close> does not import it.\<close>

definition MAX_RETRY_DELAY :: int where
  "MAX_RETRY_DELAY = 30000"

text \<open>\<^verbatim>\<open>a || b\<close> on optional strings and on optional numbers (\<open>0\<close> is falsy).\<close>

definition truthy :: "string option \<Rightarrow> bool" where
  "truthy a = (case a of None \<Rightarrow> False | Some s \<Rightarrow> s \<noteq> [])"

definition or_opt :: "string option \<Rightarrow> string option \<Rightarrow> string option" where
  "or_opt a b = (if truthy a then a else b)"

definition or_num :: "int option \<Rightarrow> int \<Rightarrow> int" where
  "or_num a b = (case a of None \<Rightarrow> b | Some n \<Rightarrow> if n = 0 then b else n)"

text \<open>The constructor; the two environment variables it reads are parameters.\<close>

definition new_HttpClient :: "string option \<Rightarrow> string option \<Rightarrow> HttpClientConfig \<Rightarrow> HttpClient" where
  "new_HttpClient env_MOLTBOOK_API_KEY env_MOLTBOOK_BASE_URL config =
     \<lparr>apiKey = or_opt (cfg_apiKey config) env_MOLTBOOK_API_KEY,
      baseUrl = or_else (or_opt (cfg_baseUrl config) env_MOLTBOOK_BASE_URL) DEFAULT_BASE_URL,
      timeout = or_num (cfg_timeout config) DEFAULT_TIMEOUT,
      retries = (case cfg_retries config of None \<Rightarrow> DEFAULT_RETRIES | Some r \<Rightarrow> r),
      retryDelay = or_num (cfg_retryDelay config) DEFAULT_RETRY_DELAY,
      customHeaders = (case cfg_headers config of None \<Rightarrow> [] | Some h \<Rightarrow> h),
      rateLimitInfo = None\<rparr>"


text \<open>
  \<^verbatim>\<open>parseRateLimitHeaders\<close>: the three header values are read, and the field is assigned
  a new object only when all three are truthy (present and not the empty string).
\<close>

definition parseRateLimitHeaders :: "HttpClient \<Rightarrow> (string \<Rightarrow> string option) \<Rightarrow> HttpClient" where
  "parseRateLimitHeaders c hdrs =
     (case (hdrs ''X-RateLimit-Limit'', hdrs ''X-RateLimit-Remaining'', hdrs ''X-RateLimit-Reset'') of
        (Some lim, Some rem, Some reset) \<Rightarrow>
          if lim \<noteq> [] \<and> rem \<noteq> [] \<and> reset \<noteq> [] then
            c\<lparr>rateLimitInfo :=
                 Some \<lparr>limit = parseInt lim, remaining = parseInt rem,
                       resetAt = times1000 (parseInt reset)\<rparr>\<rparr>
          else c
      | _ \<Rightarrow> c)"

text \<open>
  \<^verbatim>\<open>handleErrorResponse\<close> always throws; the model returns the error it throws. \<open>now\<close>
  is \<^verbatim>\<open>Date.now()\<close> at that moment. A body that does not parse is replaced by an object
  whose only field is the message built from the status line.
\<close>

definition handleErrorResponse :: "int \<Rightarrow> 'a Response \<Rightarrow> MoltgramError" where
  "handleErrorResponse now response =
     (let errorData =
            (case json response of
               Some (d, _) \<Rightarrow> d
             | None \<Rightarrow>
                 \<lparr>error = Some (''HTTP '' @ show_int (status response) @ '': '' @ statusText response),
                  error_code = None, error_hint = None, error_retryAfter = None\<rparr>);
          message = or_else (error errorData) ''Unknown error'';
          hint = error_hint errorData
      in if status response = 401 then AuthenticationError message hint
         else if status response = 403 then ForbiddenError message hint
         else if status response = 404 then NotFoundError message hint
         else if status response = 429 then
           RateLimitError now message (or_num (error_retryAfter errorData) 60) hint
         else if status response = 400 then ValidationError message (error_code errorData) hint
         else new_MoltgramError message (status response) (error_code errorData) hint)"

text \<open>\<^verbatim>\<open>error instanceof RateLimitError\<close> and \<^verbatim>\<open>error instanceof NetworkError\<close>.\<close>

definition isRateLimitError :: "MoltgramError \<Rightarrow> bool" where
  "isRateLimitError e = (case kind e of RateLimitErrorC _ _ \<Rightarrow> True | _ \<Rightarrow> False)"

definition isNetworkError :: "MoltgramError \<Rightarrow> bool" where
  "isNetworkError e = (kind e = NetworkErrorC)"

definition shouldRetry :: "HttpClient \<Rightarrow> thrown \<Rightarrow> nat \<Rightarrow> bool" where
  "shouldRetry c err attempt =
     (if int attempt \<ge> retries c then False
      else case err of
             Moltgram e \<Rightarrow>
               if statusCode e \<ge> 400 \<and> statusCode e < 500 then isRateLimitError e
               else isNetworkError e \<or> statusCode e \<ge> 500
           | _ \<Rightarrow> False)"

definition getRetryDelay :: "HttpClient \<Rightarrow> nat \<Rightarrow> thrown \<Rightarrow> int" where
  "getRetryDelay c attempt err =
     (case err of
        Moltgram e \<Rightarrow>
          (case kind e of
             RateLimitErrorC ra _ \<Rightarrow> ra * 1000
           | _ \<Rightarrow> retryDelay c * 2 ^ attempt)
      | _ \<Rightarrow> retryDelay c * 2 ^ attempt)"

subsection \<open>\<^verbatim>\<open>buildUrl\<close>\<close>

text \<open>
  The serialiser behind \<^verbatim>\<open>url.searchParams\<close> (the URL standard's
  application/x-www-form-urlencoded serialiser), on strings read as UTF-8 bytes: a
  space becomes \<open>+\<close>, letters, digits and \<open>*-._\<close> stay, every other byte is
  percent-encoded; the pairs are written \<open>name=value\<close> and joined by \<open>&\<close>.
\<close>

definition hex_digit :: "nat \<Rightarrow> char" where
  "hex_digit d = ''0123456789ABCDEF'' ! d"

definition unreserved :: "char \<Rightarrow> bool" where
  "unreserved c =
     (c \<in> set ''*-._0123456789ABCDEFGHIJKLMNOPQRSTUVWXYZabcdefghijklmnopqrstuvwxyz'')"

definition urlencode_byte :: "char \<Rightarrow> string" where
  "urlencode_byte c =
     (if c = CHR '' '' then ''+''
      else if unreserved c then [c]
      else [CHR ''%'', hex_digit (of_char c div 16), hex_digit (of_char c mod 16)])"

definition urlencode :: "string \<Rightarrow> string" where
  "urlencode s = concat (map urlencode_byte s)"

definition urlencode_pair :: "string \<times> string \<Rightarrow> string" where
  "urlencode_pair kv = urlencode (fst kv) @ ''='' @ urlencode (snd kv)"

fun join :: "string \<Rightarrow> string list \<Rightarrow> string" where
  "join sep [] = []"
| "join sep [x] = x"
| "join sep (x # y # ys) = x @ sep @ join sep (y # ys)"

definition serialize :: "(string \<times> string) list \<Rightarrow> string" where
  "serialize ps = join ''&'' (map urlencode_pair ps)"

text \<open>\<^verbatim>\<open>url.searchParams.append(key, value)\<close>: the pair is added at the end of the list and
  the URL's query becomes the serialisation of the list (null if that is empty).\<close>

definition searchParams_append :: "URL \<Rightarrow> string \<Rightarrow> string \<Rightarrow> URL" where
  "searchParams_append url key val =
     (let ps = searchParams url @ [(key, val)]; q = serialize ps
      in url\<lparr>searchParams := ps, search := (if q = [] then None else Some q)\<rparr>)"

text \<open>\<^verbatim>\<open>url.toString()\<close>: the href, with \<open>?query\<close> and \<open>#fragment\<close> when they are not null.\<close>

definition URL_toString :: "URL \<Rightarrow> string" where
  "URL_toString url =
     upto_path url
     @ (case search url of None \<Rightarrow> [] | Some q \<Rightarrow> CHR ''?'' # q)
     @ (case fragment url of None \<Rightarrow> [] | Some f \<Rightarrow> CHR ''#'' # f)"

text \<open>A query value is a string or a number; \<^verbatim>\<open>String(value)\<close> stringifies it.\<close>

datatype query_value = QString string | QNumber int

definition js_String :: "query_value \<Rightarrow> string" where
  "js_String v = (case v of QString s \<Rightarrow> s | QNumber n \<Rightarrow> show_int n)"

text \<open>
  The query object, as the list \<^verbatim>\<open>Object.entries(query)\<close> enumerates; a property
  whose value is \<^verbatim>\<open>undefined\<close> has the value \<open>None\<close>.
\<close>

type_synonym query = "(string \<times> query_value option) list"

definition append_entry :: "URL \<Rightarrow> string \<times> query_value option \<Rightarrow> URL" where
  "append_entry url entry =
     (case snd entry of
        None \<Rightarrow> url
      | Some v \<Rightarrow> searchParams_append url (fst entry) (js_String v))"

definition buildUrl ::
  "HttpClient \<Rightarrow> (string \<Rightarrow> string \<Rightarrow> URL option) \<Rightarrow> string \<Rightarrow> query option \<Rightarrow> thrown + string" where
  "buildUrl c new_url path qry =
     (case new_url path (baseUrl c) of
        None \<Rightarrow> Inl (TypeError ''Invalid URL'')
      | Some url \<Rightarrow>
          Inr (URL_toString
                 (case qry of
                    None \<Rightarrow> url
                  | Some entries \<Rightarrow> foldl append_entry url entries)))"

subsection \<open>\<^verbatim>\<open>request\<close>: the retry loop\<close>

text \<open>
  The body of the \<^verbatim>\<open>try\<close> block for one attempt: the outcome of \<^verbatim>\<open>fetch\<close>, then
  \<^verbatim>\<open>parseRateLimitHeaders\<close>, then the error thrown by \<^verbatim>\<open>handleErrorResponse\<close> for a
  response that is not ok, or the parsed body. The result is the client (whose
  \<^verbatim>\<open>rateLimitInfo\<close> may have been assigned) and what the block throws or returns.
\<close>

definition try_block :: "HttpClient \<Rightarrow> 'a fetch_result \<Rightarrow> int \<Rightarrow> HttpClient \<times> (thrown + 'a)" where
  "try_block c fr now =
     (case fr of
        Rejects_TypeError m \<Rightarrow> (c, Inl (TypeError m))
      | Rejects_Other m \<Rightarrow> (c, Inl (OtherError m))
      | TimesOut \<Rightarrow> (c, Inl AbortError)
      | Resolves response \<Rightarrow>
          (let c' = parseRateLimitHeaders c (headers response)
           in if \<not> ok response then (c', Inl (Moltgram (handleErrorResponse now response)))
              else case json response of
                     None \<Rightarrow> (c', Inl SyntaxError)
                   | Some (_, v) \<Rightarrow> (c', Inr v)))"

text \<open>The first two lines of the \<^verbatim>\<open>catch\<close> block: the value of \<^verbatim>\<open>lastError\<close>.\<close>

definition catch_lastError :: "thrown \<Rightarrow> thrown" where
  "catch_lastError err =
     (case err of
        TypeError m \<Rightarrow>
          if str_includes m ''fetch'' then Moltgram (NetworkError ''Network request failed'')
          else err
      | _ \<Rightarrow> err)"

text \<open>
  What a request leaves behind: what it throws (\<open>Inl\<close>) or returns (\<open>Inr\<close>), the client
  object, the number of calls of \<^verbatim>\<open>fetch\<close> it made and the delays it slept, in order
  (milliseconds).
\<close>

record 'a result =
  outcome :: "thrown + 'a"
  client :: HttpClient
  attempts :: nat
  sleeps :: "int list"

lemma parseRateLimitHeaders_retries: "retries (parseRateLimitHeaders c h) = retries c"
  by (simp add: parseRateLimitHeaders_def split: option.splits)

lemma try_block_retries: "try_block c fr now = (c', x) \<Longrightarrow> retries c' = retries c"
  by (auto simp: try_block_def Let_def parseRateLimitHeaders_retries
           split: fetch_result.splits if_splits option.splits prod.splits)

text \<open>
  The \<^verbatim>\<open>for\<close> loop of \<^verbatim>\<open>request\<close>, entered at \<open>attempt\<close> with the current
  \<^verbatim>\<open>lastError\<close> and the delays slept so far; when the loop condition fails, the
  statement after the loop throws \<^verbatim>\<open>lastError\<close>.
\<close>

function request_loop ::
  "HttpClient \<Rightarrow> (nat \<Rightarrow> 'a fetch_result) \<Rightarrow> (nat \<Rightarrow> int) \<Rightarrow> nat \<Rightarrow> thrown \<Rightarrow> int list \<Rightarrow> 'a result" where
  "request_loop c fetch_i now_i attempt lastError slept =
     (if int attempt \<le> retries c then
        (case try_block c (fetch_i attempt) (now_i attempt) of
           (c', Inr v) \<Rightarrow>
             \<lparr>outcome = Inr v, client = c', attempts = attempt + 1, sleeps = slept\<rparr>
         | (c', Inl err) \<Rightarrow>
             if \<not> shouldRetry c' (catch_lastError err) attempt then
               \<lparr>outcome = Inl (catch_lastError err), client = c', attempts = attempt + 1,
                sleeps = slept\<rparr>
             else
               request_loop c' fetch_i now_i (attempt + 1) (catch_lastError err)
                 (slept @ [getRetryDelay c' attempt (catch_lastError err)]))
      else \<lparr>outcome = Inl lastError, client = c, attempts = attempt, sleeps = slept\<rparr>)"
  by pat_completeness auto
termination
  apply (relation "measure (\<lambda>(c, f, n, attempt, e, s). nat (retries c + 1 - int attempt))")
   apply simp
  apply (auto dest!: try_block_retries [OF sym])
  done

declare request_loop.simps [simp del]

text \<open>The part of \<^verbatim>\<open>RequestConfig\<close> that \<^verbatim>\<open>request\<close> itself reads.\<close>

record RequestConfig =
  path :: string
  query :: "query option"

text \<open>
  \<^verbatim>\<open>request\<close>: \<^verbatim>\<open>buildUrl\<close> runs before the loop and outside the \<^verbatim>\<open>try\<close> block, so what
  it throws is thrown by the request with no call of \<^verbatim>\<open>fetch\<close>. \<^verbatim>\<open>buildHeaders\<close> cannot
  throw, and its result only travels to \<^verbatim>\<open>fetch\<close>.
\<close>

definition request :: "HttpClient \<Rightarrow> 'a platform \<Rightarrow> RequestConfig \<Rightarrow> 'a result" where
  "request c pf config =
     (case buildUrl c (new_URL pf) (path config) (query config) of
        Inl e \<Rightarrow> \<lparr>outcome = Inl e, client = c, attempts = 0, sleeps = []\<rparr>
      | Inr url \<Rightarrow> request_loop c (fetch pf url) (Date_now pf) 0 Undefined [])"

subsection \<open>Construction: \<^verbatim>\<open>MoltgramClient\<close> and \<^verbatim>\<open>validateApiKey\<close>\<close>

definition API_KEY_PREFIX :: string where
  "API_KEY_PREFIX = ''moltgram_''"

text \<open>A string between double quotes, as the error messages write the key prefix.\<close>

definition quoted :: "string \<Rightarrow> string" where
  "quoted s = CHR 0x22 # s @ [CHR 0x22]"

text \<open>
  \<^verbatim>\<open>MoltgramClient.validateConfig\<close>. \<^verbatim>\<open>MoltgramClientConfig\<close> has the fields of
  \<^verbatim>\<open>HttpClientConfig\<close>; under these types the \<^verbatim>\<open>typeof\<close> tests cannot fail. The result
  is the error thrown, or \<open>Inr ()\<close> when the function returns.
\<close>

definition validateConfig :: "HttpClientConfig \<Rightarrow> ConfigurationError + unit" where
  "validateConfig config =
     (if (case cfg_apiKey config of
            None \<Rightarrow> False
          | Some k \<Rightarrow> k \<noteq> [] \<and> \<not> startsWith k ''moltgram_'')
      then Inl (ConfigurationError (''apiKey must start with '' @ quoted ''moltgram_''))
      else if (case cfg_timeout config of None \<Rightarrow> False | Some t \<Rightarrow> t \<le> 0)
      then Inl (ConfigurationError ''timeout must be a positive number'')
      else if (case cfg_retries config of None \<Rightarrow> False | Some r \<Rightarrow> r < 0)
      then Inl (ConfigurationError ''retries must be a non-negative number'')
      else Inr ())"

text \<open>The constructor of \<^verbatim>\<open>MoltgramClient\<close>: \<^verbatim>\<open>validateConfig\<close>, then \<^verbatim>\<open>new HttpClient\<close>
  (the resource facades only hold a reference to that client).\<close>

definition new_MoltgramClient ::
  "string option \<Rightarrow> string option \<Rightarrow> HttpClientConfig \<Rightarrow> ConfigurationError + HttpClient" where
  "new_MoltgramClient env_MOLTBOOK_API_KEY env_MOLTBOOK_BASE_URL config =
     (case validateConfig config of
        Inl e \<Rightarrow> Inl e
      | Inr _ \<Rightarrow> Inr (new_HttpClient env_MOLTBOOK_API_KEY env_MOLTBOOK_BASE_URL config))"

text \<open>\<^verbatim>\<open>validateApiKey\<close> of \<^verbatim>\<open>utils/validators.ts\<close>; no constructor calls it.\<close>

definition validateApiKey :: "string option \<Rightarrow> ConfigurationError + unit" where
  "validateApiKey key =
     (case key of
        None \<Rightarrow> Inr ()
      | Some k \<Rightarrow>
          if k = [] then Inr ()
          else if \<not> startsWith k API_KEY_PREFIX
          then Inl (ConfigurationError (''apiKey must start with '' @ quoted API_KEY_PREFIX))
          else if length k < 25 then Inl (ConfigurationError ''apiKey is too short'')
          else Inr ())"

subsection \<open>Words of the specification\<close>







text \<open>The parameters a query object defines: its entries whose value is not
  \<^verbatim>\<open>undefined\<close>, in order, each value stringified.\<close>

definition defined_params :: "query \<Rightarrow> (string \<times> string) list" where
  "defined_params entries =
     concat (map (\<lambda>entry. case snd entry of None \<Rightarrow> [] | Some v \<Rightarrow> [(fst entry, js_String v)]) entries)"

section \<open>Properties\<close>

subsection \<open>The error mapper\<close>



text \<open>
  Claim C1 (the status table maps 409 to \<^verbatim>\<open>Conflict\<close>). The switch of
  \<^verbatim>\<open>handleErrorResponse\<close> has no case for 409: a 409 response whose body is
  \<^verbatim>\<open>{error: 'Name taken', code: 'CONFLICT'}\<close> is mapped by the default case to a plain
  \<^verbatim>\<open>MoltgramError\<close> with status 409, and not to the \<^verbatim>\<open>ConflictError\<close> that
  \<^verbatim>\<open>utils/errors.ts\<close> defines for this status.
\<close>

theorem handleErrorResponse_409_is_generic:
  "handleErrorResponse now
     \<lparr>status = 409, statusText = ''Conflict'', headers = (\<lambda>_. None),
      json = Some (\<lparr>error = Some ''Name taken'', error_code = Some ''CONFLICT'',
                    error_hint = None, error_retryAfter = None\<rparr>, ())\<rparr>
   = new_MoltgramError ''Name taken'' 409 (Some ''CONFLICT'') None
   \<and> kind (handleErrorResponse now
        \<lparr>status = 409, statusText = ''Conflict'', headers = (\<lambda>_. None),
         json = Some (\<lparr>error = Some ''Name taken'', error_code = Some ''CONFLICT'',
                       error_hint = None, error_retryAfter = None\<rparr>, ())\<rparr>)
     \<noteq> kind (ConflictError ''Name taken'' None)"
  by (simp add: handleErrorResponse_def Let_def or_else_def new_MoltgramError_def
        ConflictError_def)

subsection \<open>The rate-limit snapshot\<close>

text \<open>
  Claim C10. When any one of the three rate-limit headers is missing from a response,
  \<^verbatim>\<open>parseRateLimitHeaders\<close> leaves the client as it is, and so does the whole attempt
  that received the response, whatever its status and body: the stored snapshot is
  neither partly updated nor cleared.
\<close>

theorem missing_header_keeps_snapshot:
  assumes "hdrs ''X-RateLimit-Limit'' = None \<or> hdrs ''X-RateLimit-Remaining'' = None
           \<or> hdrs ''X-RateLimit-Reset'' = None"
  shows "parseRateLimitHeaders c hdrs = c
         \<and> (headers r = hdrs \<longrightarrow>
              rateLimitInfo (fst (try_block c (Resolves r) now)) = rateLimitInfo c)"
proof -
  have same: "parseRateLimitHeaders c hdrs = c"
    using assms by (auto simp: parseRateLimitHeaders_def split: option.splits)
  have "headers r = hdrs \<Longrightarrow> fst (try_block c (Resolves r) now) = c"
    using same by (simp add: try_block_def Let_def split: option.splits prod.splits)
  with same show ?thesis by simp
qed

theorem missing_header_keeps_snapshot_witness:
  "rateLimitInfo
     (fst (try_block
        \<lparr>apiKey = None, baseUrl = DEFAULT_BASE_URL, timeout = 30000, retries = 3,
         retryDelay = 1000, customHeaders = [],
         rateLimitInfo = Some \<lparr>limit = Num 100, remaining = Num 7, resetAt = Num 1700000000000\<rparr>\<rparr>
        (Resolves
           \<lparr>status = 200, statusText = ''OK'',
            headers = (\<lambda>n. if n = ''X-RateLimit-Limit'' then Some ''50''
                            else if n = ''X-RateLimit-Remaining'' then Some ''49'' else None),
            json = Some (\<lparr>error = None, error_code = None, error_hint = None,
                          error_retryAfter = None\<rparr>, ())\<rparr>)
        0))
   = Some \<lparr>limit = Num 100, remaining = Num 7, resetAt = Num 1700000000000\<rparr>"
  using missing_header_keeps_snapshot
    [of "\<lambda>n. if n = ''X-RateLimit-Limit'' then Some ''50''
              else if n = ''X-RateLimit-Remaining'' then Some ''49'' else None"
        "\<lparr>apiKey = None, baseUrl = DEFAULT_BASE_URL, timeout = 30000, retries = 3,
         retryDelay = 1000, customHeaders = [],
         rateLimitInfo = Some \<lparr>limit = Num 100, remaining = Num 7, resetAt = Num 1700000000000\<rparr>\<rparr>"
        "\<lparr>status = 200, statusText = ''OK'',
            headers = (\<lambda>n. if n = ''X-RateLimit-Limit'' then Some ''50''
                            else if n = ''X-RateLimit-Remaining'' then Some ''49'' else None),
            json = Some (\<lparr>error = None, error_code = None, error_hint = None,
                          error_retryAfter = None\<rparr>, ())\<rparr>"
        0]
  by simp

subsection \<open>Rate-limited responses\<close>




subsection \<open>Construction\<close>

text \<open>
  Claim C6, as stated, fails on the length: \<^verbatim>\<open>validateConfig\<close> tests the prefix only.
  The key \<^verbatim>\<open>moltgram_test123\<close> (16 characters, fewer than the 25 that
  \<^verbatim>\<open>validateApiKey\<close> asks for) starts with the prefix, and the constructor succeeds;
  the repository's test \<^verbatim>\<open>creates client with API key\<close> constructs a client with this
  very key.
\<close>

theorem short_apiKey_counterexample:
  "length ''moltgram_test123'' < 25
   \<and> validateApiKey (Some ''moltgram_test123'') = Inl (ConfigurationError ''apiKey is too short'')
   \<and> new_MoltgramClient None None
        \<lparr>cfg_apiKey = Some ''moltgram_test123'', cfg_baseUrl = None, cfg_timeout = None,
         cfg_retries = None, cfg_retryDelay = None, cfg_headers = None\<rparr>
     = Inr (new_HttpClient None None
        \<lparr>cfg_apiKey = Some ''moltgram_test123'', cfg_baseUrl = None, cfg_timeout = None,
         cfg_retries = None, cfg_retryDelay = None, cfg_headers = None\<rparr>)"
  by (simp add: new_MoltgramClient_def validateConfig_def validateApiKey_def startsWith_def
        API_KEY_PREFIX_def)

text \<open>
  Claim C6, amended. Construction takes no platform, so nothing it does touches the
  network. It fails with a \<^verbatim>\<open>ConfigurationError\<close> whenever the credential is provided,
  non-empty and does not start with \<^verbatim>\<open>moltgram_\<close>. It succeeds, whatever the length of
  the credential, when the credential is absent, empty or starts with \<^verbatim>\<open>moltgram_\<close>
  and the timeout and retry count, if given, are positive and non-negative. The
  minimum length of 25 is enforced by the separate validator \<^verbatim>\<open>validateApiKey\<close> only,
  which rejects a non-empty key that lacks the prefix or is shorter than 25.
\<close>

theorem construction_checks_prefix:
  "(cfg_apiKey config = Some k \<and> k \<noteq> [] \<and> \<not> startsWith k ''moltgram_''
      \<longrightarrow> (\<exists>m. new_MoltgramClient e1 e2 config = Inl (ConfigurationError m)))
   \<and> ((cfg_apiKey config = None \<or> cfg_apiKey config = Some []
        \<or> (\<exists>k'. cfg_apiKey config = Some k' \<and> startsWith k' ''moltgram_''))
       \<and> (\<forall>t. cfg_timeout config = Some t \<longrightarrow> 0 < t)
       \<and> (\<forall>n. cfg_retries config = Some n \<longrightarrow> 0 \<le> n)
      \<longrightarrow> new_MoltgramClient e1 e2 config = Inr (new_HttpClient e1 e2 config))
   \<and> (k \<noteq> [] \<and> (\<not> startsWith k ''moltgram_'' \<or> length k < 25)
      \<longrightarrow> (\<exists>m. validateApiKey (Some k) = Inl (ConfigurationError m)))"
  by (auto simp: new_MoltgramClient_def validateConfig_def validateApiKey_def
        API_KEY_PREFIX_def split: option.splits)

theorem construction_checks_prefix_witness:
  "(\<exists>m. new_MoltgramClient None None
        \<lparr>cfg_apiKey = Some ''invalid_key'', cfg_baseUrl = None, cfg_timeout = None,
         cfg_retries = None, cfg_retryDelay = None, cfg_headers = None\<rparr>
       = Inl (ConfigurationError m))
   \<and> new_MoltgramClient None None
        \<lparr>cfg_apiKey = None, cfg_baseUrl = None, cfg_timeout = None,
         cfg_retries = None, cfg_retryDelay = None, cfg_headers = None\<rparr>
     = Inr (new_HttpClient None None
        \<lparr>cfg_apiKey = None, cfg_baseUrl = None, cfg_timeout = None,
         cfg_retries = None, cfg_retryDelay = None, cfg_headers = None\<rparr>)
   \<and> (\<exists>m. validateApiKey (Some ''invalid_key'') = Inl (ConfigurationError m))"
  using construction_checks_prefix
    [of "\<lparr>cfg_apiKey = Some ''invalid_key'', cfg_baseUrl = None, cfg_timeout = None,
         cfg_retries = None, cfg_retryDelay = None, cfg_headers = None\<rparr>"
        "''invalid_key''" None None]
    construction_checks_prefix
    [of "\<lparr>cfg_apiKey = None, cfg_baseUrl = None, cfg_timeout = None,
         cfg_retries = None, cfg_retryDelay = None, cfg_headers = None\<rparr>"
        "''invalid_key''" None None]
  by (simp add: startsWith_def)

subsection \<open>Backoff\<close>

text \<open>What \<^verbatim>\<open>getRetryDelay\<close> computes: the server's \<^verbatim>\<open>retryAfter\<close> in milliseconds for a
  \<^verbatim>\<open>RateLimitError\<close>, and \<open>retryDelay * 2 ^ attempt\<close> for everything else.\<close>

lemma getRetryDelay_rate_limited:
  "kind e = RateLimitErrorC ra rs \<Longrightarrow> getRetryDelay c attempt (Moltgram e) = ra * 1000"
  by (simp add: getRetryDelay_def)

lemma getRetryDelay_backoff:
  "\<not> isRateLimitError e \<Longrightarrow> getRetryDelay c attempt (Moltgram e) = retryDelay c * 2 ^ attempt"
  by (simp add: getRetryDelay_def isRateLimitError_def split: error_class.splits)

text \<open>
  Claim C4 (the backoff is capped at a fixed maximum delay). \<^verbatim>\<open>getRetryDelay\<close> applies
  no cap: \<^verbatim>\<open>MAX_RETRY_DELAY\<close> (30000) is declared in \<^verbatim>\<open>utils/constants.ts\<close> and never
  used. A client built with \<^verbatim>\<open>{retries: 6}\<close> and the default base delay of 1000 that
  receives a 500 on attempt 5 decides to retry and sleeps 32000 milliseconds, which
  is more than \<^verbatim>\<open>MAX_RETRY_DELAY\<close>.
\<close>

theorem getRetryDelay_exceeds_MAX_RETRY_DELAY:
  "shouldRetry
     (new_HttpClient None None
        \<lparr>cfg_apiKey = None, cfg_baseUrl = None, cfg_timeout = None, cfg_retries = Some 6,
         cfg_retryDelay = None, cfg_headers = None\<rparr>)
     (Moltgram (new_MoltgramError ''Internal error'' 500 None None)) 5
   \<and> getRetryDelay
     (new_HttpClient None None
        \<lparr>cfg_apiKey = None, cfg_baseUrl = None, cfg_timeout = None, cfg_retries = Some 6,
         cfg_retryDelay = None, cfg_headers = None\<rparr>)
     5 (Moltgram (new_MoltgramError ''Internal error'' 500 None None)) = 32000
   \<and> MAX_RETRY_DELAY < 32000"
  by (simp add: shouldRetry_def getRetryDelay_def new_HttpClient_def new_MoltgramError_def
        or_num_def DEFAULT_RETRY_DELAY_def MAX_RETRY_DELAY_def isNetworkError_def)

subsection \<open>Timeouts\<close>

text \<open>
  Claim C2 (a timed-out attempt surfaces a \<^verbatim>\<open>Timeout\<close> typed error). When the abort
  timer fires on the first attempt, \<^verbatim>\<open>fetch\<close> rejects with the \<^verbatim>\<open>AbortError\<close> of the
  signal; the \<^verbatim>\<open>catch\<close> block keeps it as it is (it is no \<^verbatim>\<open>TypeError\<close>),
  \<^verbatim>\<open>shouldRetry\<close> refuses it (it is no \<^verbatim>\<open>MoltgramError\<close>), and \<^verbatim>\<open>request\<close> rethrows the
  raw \<^verbatim>\<open>AbortError\<close> after one attempt. No \<^verbatim>\<open>TimeoutError\<close> is ever constructed.
\<close>

theorem timeout_surfaces_AbortError:
  assumes "buildUrl c (new_URL pf) (path config) (query config) = Inr url"
    and "0 \<le> retries c"
    and "fetch pf url 0 = TimesOut"
  shows "outcome (request c pf config) = Inl AbortError
         \<and> attempts (request c pf config) = 1
         \<and> outcome (request c pf config) \<noteq> Inl (Moltgram (TimeoutError m t))"
  using assms
  by (simp add: request_def request_loop.simps [of c] try_block_def catch_lastError_def
        shouldRetry_def)

theorem timeout_surfaces_AbortError_witness:
  "outcome (request
      (new_HttpClient None None
         \<lparr>cfg_apiKey = None, cfg_baseUrl = None, cfg_timeout = None, cfg_retries = None,
          cfg_retryDelay = None, cfg_headers = None\<rparr>)
      \<lparr>new_URL = (\<lambda>p b. Some \<lparr>upto_path = ''https://www.moltgram.com'' @ p, search = None,
                                 searchParams = [], fragment = None\<rparr>),
       fetch = (\<lambda>u i. TimesOut :: unit fetch_result), Date_now = (\<lambda>i. 0)\<rparr>
      \<lparr>path = ''/feed'', query = None\<rparr>)
   = Inl AbortError"
  using timeout_surfaces_AbortError
    [of "new_HttpClient None None
         \<lparr>cfg_apiKey = None, cfg_baseUrl = None, cfg_timeout = None, cfg_retries = None,
          cfg_retryDelay = None, cfg_headers = None\<rparr>"
        "\<lparr>new_URL = (\<lambda>p b. Some \<lparr>upto_path = ''https://www.moltgram.com'' @ p, search = None,
                                 searchParams = [], fragment = None\<rparr>),
       fetch = (\<lambda>u i. TimesOut :: unit fetch_result), Date_now = (\<lambda>i. 0)\<rparr>"
        "\<lparr>path = ''/feed'', query = None\<rparr>"
        "''https://www.moltgram.com/feed''"]
  by (simp add: buildUrl_def URL_toString_def new_HttpClient_def DEFAULT_RETRIES_def)

subsection \<open>Steps of the retry loop\<close>











subsection \<open>The retry decision\<close>



subsection \<open>Exhausted retries\<close>



subsection \<open>Lifecycle of the rate-limit snapshot\<close>




subsection \<open>Query parameters of the built URL\<close>

lemma urlencode_pair_nonempty: "urlencode_pair kv \<noteq> []"
  by (simp add: urlencode_pair_def)

lemma join_nonempty: "xs \<noteq> [] \<Longrightarrow> hd xs \<noteq> [] \<Longrightarrow> join sep xs \<noteq> []"
  by (induction sep xs rule: join.induct) auto

lemma serialize_nonempty: "ps \<noteq> [] \<Longrightarrow> serialize ps \<noteq> []"
  unfolding serialize_def
  by (rule join_nonempty) (auto simp: urlencode_pair_nonempty hd_map)

lemma append_entry_fields:
  "upto_path (append_entry url entry) = upto_path url
   \<and> fragment (append_entry url entry) = fragment url
   \<and> searchParams (append_entry url entry) = searchParams url @ defined_params [entry]
   \<and> search (append_entry url entry) =
       (if defined_params [entry] = [] then search url
        else Some (serialize (searchParams url @ defined_params [entry])))"
  by (cases entry)
     (auto simp: append_entry_def searchParams_append_def defined_params_def Let_def
        serialize_nonempty split: option.splits)

lemma defined_params_append:
  "defined_params (xs @ ys) = defined_params xs @ defined_params ys"
  by (simp add: defined_params_def)

lemma defined_params_Cons:
  "defined_params (x # xs) = defined_params [x] @ defined_params xs"
  by (simp add: defined_params_def)

lemma foldl_append_entry_fields:
  "upto_path (foldl append_entry url entries) = upto_path url
   \<and> fragment (foldl append_entry url entries) = fragment url
   \<and> searchParams (foldl append_entry url entries) = searchParams url @ defined_params entries
   \<and> search (foldl append_entry url entries) =
       (if defined_params entries = [] then search url
        else Some (serialize (searchParams url @ defined_params entries)))"
proof (induction entries arbitrary: url)
  case Nil
  then show ?case by (simp add: defined_params_def)
next
  case (Cons entry entries)
  show ?case
    using Cons.IH [of "append_entry url entry"] append_entry_fields [of url entry]
    by (simp add: defined_params_Cons [of entry entries])
qed

lemma defined_params_undefined:
  "(k, None) \<in> set entries \<Longrightarrow> distinct (map fst entries) \<Longrightarrow>
   k \<notin> fst ` set (defined_params entries)"
  by (induction entries) (force simp: defined_params_def split: option.splits)+

lemma defined_params_defined:
  "(k, Some v) \<in> set entries \<Longrightarrow> (k, js_String v) \<in> set (defined_params entries)"
  by (induction entries) (auto simp: defined_params_def split: option.splits)

text \<open>
  Claim C9. Let \<^verbatim>\<open>new URL(path, baseUrl)\<close> give \<open>url\<close>. The URL that \<^verbatim>\<open>buildUrl\<close> returns
  for a query object is \<open>url\<close> up to its path, then, when the object defines at least
  one parameter, \<open>?\<close> and the serialisation \<open>name=value&...\<close> of the parameters \<open>url\<close>
  already had followed by the defined entries of the object in order, then the
  fragment of \<open>url\<close>. So an entry whose value is \<^verbatim>\<open>undefined\<close> adds no parameter (no
  parameter of its name comes from the object); an entry whose value is the empty
  string is present as \<open>key=\<close>; and every other entry is present as \<open>key=value\<close> with
  its stringified value (both percent-encoded).
\<close>

theorem buildUrl_query_parameters:
  assumes "new_url pth (baseUrl c) = Some url"
  shows "buildUrl c new_url pth (Some entries) =
           Inr (upto_path url
                @ (if defined_params entries = []
                   then (case search url of None \<Rightarrow> [] | Some q \<Rightarrow> CHR ''?'' # q)
                   else CHR ''?'' #
                        join ''&'' (map urlencode_pair (searchParams url @ defined_params entries)))
                @ (case fragment url of None \<Rightarrow> [] | Some f \<Rightarrow> CHR ''#'' # f))
         \<and> (\<forall>k. (k, None) \<in> set entries \<and> distinct (map fst entries)
                \<longrightarrow> k \<notin> fst ` set (defined_params entries))
         \<and> (\<forall>k. (k, Some (QString [])) \<in> set entries
                \<longrightarrow> urlencode k @ ''=''
                      \<in> set (map urlencode_pair (searchParams url @ defined_params entries)))
         \<and> (\<forall>k v. (k, Some v) \<in> set entries
                \<longrightarrow> urlencode k @ ''='' @ urlencode (js_String v)
                      \<in> set (map urlencode_pair (searchParams url @ defined_params entries)))"
proof -
  have eq: "buildUrl c new_url pth (Some entries) =
           Inr (upto_path url
                @ (if defined_params entries = []
                   then (case search url of None \<Rightarrow> [] | Some q \<Rightarrow> CHR ''?'' # q)
                   else CHR ''?'' #
                        join ''&'' (map urlencode_pair (searchParams url @ defined_params entries)))
                @ (case fragment url of None \<Rightarrow> [] | Some f \<Rightarrow> CHR ''#'' # f))"
    using assms foldl_append_entry_fields [of url entries]
    by (simp add: buildUrl_def URL_toString_def serialize_def)
  have present: "urlencode k @ ''='' @ urlencode (js_String v)
                      \<in> set (map urlencode_pair (searchParams url @ defined_params entries))"
    if "(k, Some v) \<in> set entries" for k v
  proof -
    have "(k, js_String v) \<in> set (searchParams url @ defined_params entries)"
      using defined_params_defined [OF that] by simp
    then have "urlencode_pair (k, js_String v)
                 \<in> set (map urlencode_pair (searchParams url @ defined_params entries))"
      unfolding set_map by (rule imageI)
    moreover have "urlencode_pair (k, js_String v) = urlencode k @ ''='' @ urlencode (js_String v)"
      by (simp add: urlencode_pair_def)
    ultimately show ?thesis by simp
  qed
  have empty: "urlencode k @ ''=''
                      \<in> set (map urlencode_pair (searchParams url @ defined_params entries))"
    if "(k, Some (QString [])) \<in> set entries" for k
    using present [OF that] by (simp add: js_String_def urlencode_def)
  show ?thesis
    using eq present empty defined_params_undefined by blast
qed

theorem buildUrl_query_parameters_witness:
  "buildUrl
     \<lparr>apiKey = None, baseUrl = ''https://www.moltgram.com'', timeout = 30000, retries = 3,
      retryDelay = 1000, customHeaders = [], rateLimitInfo = None\<rparr>
     (\<lambda>p b. Some \<lparr>upto_path = b @ p, search = None, searchParams = [], fragment = None\<rparr>)
     ''/posts''
     (Some [(''sort'', Some (QString ''hot'')), (''q'', Some (QString [])),
            (''limit'', Some (QNumber 25)), (''offset'', None)])
   = Inr ''https://www.moltgram.com/posts?sort=hot&q=&limit=25''
   \<and> ''offset'' \<notin> fst ` set (defined_params
         [(''sort'', Some (QString ''hot'')), (''q'', Some (QString [])),
          (''limit'', Some (QNumber 25)), (''offset'', None)])
   \<and> ''q='' \<in> set (map urlencode_pair (defined_params
         [(''sort'', Some (QString ''hot'')), (''q'', Some (QString [])),
          (''limit'', Some (QNumber 25)), (''offset'', None)]))"
  using buildUrl_query_parameters
    [of "\<lambda>p b. Some \<lparr>upto_path = b @ p, search = None, searchParams = [], fragment = None\<rparr>"
        "''/posts''"
        "\<lparr>apiKey = None, baseUrl = ''https://www.moltgram.com'', timeout = 30000, retries = 3,
          retryDelay = 1000, customHeaders = [], rateLimitInfo = None\<rparr>"
        "\<lparr>upto_path = ''https://www.moltgram.com/posts'', search = None, searchParams = [],
          fragment = None\<rparr>"
        "[(''sort'', Some (QString ''hot'')), (''q'', Some (QString [])),
          (''limit'', Some (QNumber 25)), (''offset'', None)]"]
  by (simp add: defined_params_def urlencode_pair_def urlencode_def urlencode_byte_def
        unreserved_def js_String_def show_int_def digit_def)

end
